theory Spec2Isabelle
  imports Main
begin

section \<open>JavaScript values and exceptions\<close>

text \<open>
  The client is TypeScript running in a browser. Values that cross an untyped boundary
  (a parsed JSON blob, a transaction status object, a decoded query response) are modelled
  as plain JavaScript values. Numbers are integers or NaN: the only arithmetic in the
  modelled code is on millisecond timestamps and counters.
\<close>

datatype jsnumber = Num int | NaN

datatype jsval =
    JUndefined
  | JNull
  | JBool bool
  | JNum jsnumber
  | JStr string
  | JArr "jsval list"
  | JObj "(string \<times> jsval) list"

text \<open>
  What a \<^verbatim>\<open>throw\<close> carries: an \<^verbatim>\<open>Error\<close> instance with its message (the case
  \<^verbatim>\<open>error instanceof Error\<close>), or any other value.
\<close>

datatype thrown = JsError string | NonError jsval

text \<open>How a \<^verbatim>\<open>try\<close> block ends: it falls through, returns from the function, or throws.\<close>

datatype 'a completion = Normal | Return 'a | Throw thrown

text \<open>JavaScript truthiness, as used by \<^verbatim>\<open>!x\<close>, \<^verbatim>\<open>x && y\<close> and \<^verbatim>\<open>x ? a : b\<close>.\<close>

fun truthy :: "jsval \<Rightarrow> bool" where
  "truthy JUndefined = False"
| "truthy JNull = False"
| "truthy (JBool b) = b"
| "truthy (JNum (Num n)) = (n \<noteq> 0)"
| "truthy (JNum NaN) = False"
| "truthy (JStr s) = (s \<noteq> [])"
| "truthy (JArr xs) = True"
| "truthy (JObj kvs) = True"

text \<open>
  Reading a data property \<^verbatim>\<open>v.k\<close>: a TypeError on \<^verbatim>\<open>undefined\<close> and \<^verbatim>\<open>null\<close>,
  the stored value on an object, \<^verbatim>\<open>length\<close> on arrays and strings, and
  \<^verbatim>\<open>undefined\<close> for every other missing property.
\<close>

fun get_prop :: "jsval \<Rightarrow> string \<Rightarrow> thrown + jsval" where
  "get_prop JUndefined k = Inl (JsError ''Cannot read properties of undefined'')"
| "get_prop JNull k = Inl (JsError ''Cannot read properties of null'')"
| "get_prop (JObj kvs) k = Inr (case map_of kvs k of None \<Rightarrow> JUndefined | Some v \<Rightarrow> v)"
| "get_prop (JArr xs) k =
     Inr (if k = ''length'' then JNum (Num (int (length xs))) else JUndefined)"
| "get_prop (JStr s) k =
     Inr (if k = ''length'' then JNum (Num (int (length s))) else JUndefined)"
| "get_prop (JBool b) k = Inr JUndefined"
| "get_prop (JNum n) k = Inr JUndefined"

text \<open>Reading the first element \<^verbatim>\<open>v[0]\<close>.\<close>

fun get_first :: "jsval \<Rightarrow> thrown + jsval" where
  "get_first JUndefined = Inl (JsError ''Cannot read properties of undefined'')"
| "get_first JNull = Inl (JsError ''Cannot read properties of null'')"
| "get_first (JArr xs) = Inr (case xs of [] \<Rightarrow> JUndefined | x # _ \<Rightarrow> x)"
| "get_first (JStr s) = Inr (case s of [] \<Rightarrow> JUndefined | c # _ \<Rightarrow> JStr [c])"
| "get_first (JObj kvs) = Inr (case map_of kvs ''0'' of None \<Rightarrow> JUndefined | Some v \<Rightarrow> v)"
| "get_first (JBool b) = Inr JUndefined"
| "get_first (JNum n) = Inr JUndefined"

text \<open>
  \<^verbatim>\<open>String(v)\<close>, which is also what a template literal inserts and what
  \<^verbatim>\<open>toString()\<close> gives on a plain value. Integers print in decimal (the model does
  not cover the exponent notation JavaScript uses from \<open>10\<^sup>2\<^sup>1\<close> on); an array
  joins its elements with commas, printing \<^verbatim>\<open>null\<close> and \<^verbatim>\<open>undefined\<close>
  elements as the empty text.
\<close>

fun nat_digits :: "nat \<Rightarrow> string" where
  "nat_digits n =
     (if n < 10 then [''0123456789'' ! n]
      else nat_digits (n div 10) @ [''0123456789'' ! (n mod 10)])"

declare nat_digits.simps [simp del]

fun join_comma :: "string list \<Rightarrow> string" where
  "join_comma [] = []"
| "join_comma [x] = x"
| "join_comma (x # y # ys) = x @ '','' @ join_comma (y # ys)"

fun js_string :: "jsval \<Rightarrow> string" where
  "js_string JUndefined = ''undefined''"
| "js_string JNull = ''null''"
| "js_string (JBool b) = (if b then ''true'' else ''false'')"
| "js_string (JNum NaN) = ''NaN''"
| "js_string (JNum (Num n)) =
     (if n < 0 then ''-'' @ nat_digits (nat (- n)) else nat_digits (nat n))"
| "js_string (JStr s) = s"
| "js_string (JArr xs) =
     join_comma (map (\<lambda>x. if x = JUndefined \<or> x = JNull then [] else js_string x) xs)"
| "js_string (JObj kvs) = ''[object Object]''"

text \<open>
  The method call \<^verbatim>\<open>v.toString()\<close>: a TypeError on \<^verbatim>\<open>undefined\<close> and
  \<^verbatim>\<open>null\<close>. A decoded SDK value with a \<^verbatim>\<open>toString\<close> of its own is
  represented by the text it prints.
\<close>

definition method_toString :: "jsval \<Rightarrow> thrown + string" where
  "method_toString v =
     (if v = JUndefined then Inl (JsError ''Cannot read properties of undefined'')
      else if v = JNull then Inl (JsError ''Cannot read properties of null'')
      else Inr (js_string v))"

section \<open>The world the client runs in\<close>

text \<open>
  Every call that leaves the client (a request to the network provider, a call into the
  signing backend, a timer wait) is appended to a trace, so that claims about how many
  calls were made, and in which order, are claims about the trace. An awaited call is
  modelled by how it settles, resolved or rejected; a promise that never settles is
  outside the model.
\<close>

datatype event =
    StatusPoll string
  | Sleep nat
  | ContractQuery string
  | ProviderInit
  | ProviderLogin
  | ProviderLogout
  | AccountSync
  | SignTransaction
  | SendTransaction

text \<open>
  A signing backend (extension, web wallet, WalletConnect, Ledger) is opaque: the model
  records how each of its methods settles. \<^verbatim>\<open>logout\<close> is optional on a backend.
\<close>

record backend =
  init_outcome :: "thrown + unit"
  login_outcome :: "thrown + string"
  signTransaction_outcome :: "thrown + unit"
  logout_outcome :: "(thrown + unit) option"

record world =
  localStorage :: "string \<rightharpoonup> string"
  currentProvider :: "backend option"
  clock :: int
  trace :: "event list"

fun is_poll :: "event \<Rightarrow> bool" where
  "is_poll (StatusPoll h) = True"
| "is_poll _ = False"

definition polls_made :: "world \<Rightarrow> nat" where
  "polls_made w = length (filter is_poll (trace w))"

definition emit :: "event \<Rightarrow> world \<Rightarrow> world" where
  "emit e w = w\<lparr>trace := trace w @ [e]\<rparr>"

text \<open>\<^verbatim>\<open>await new Promise(resolve => setTimeout(resolve, ms))\<close>\<close>

definition sleep :: "nat \<Rightarrow> world \<Rightarrow> world" where
  "sleep ms w = emit (Sleep ms) (w\<lparr>clock := clock w + int ms\<rparr>)"

section \<open>ContractService.waitForTransaction\<close>

text \<open>
  The network provider's \<^verbatim>\<open>getTransactionStatus\<close> is a parameter: for a hash and the
  number of status requests already made it either rejects or resolves to a value.
\<close>

type_synonym status_oracle = "string \<Rightarrow> nat \<Rightarrow> thrown + jsval"

definition getTransactionStatus ::
  "status_oracle \<Rightarrow> string \<Rightarrow> world \<Rightarrow> (thrown + jsval) \<times> world" where
  "getTransactionStatus net txHash w = (net txHash (polls_made w), emit (StatusPoll txHash) w)"

text \<open>The two tests on \<^verbatim>\<open>status.status\<close>.\<close>

definition success_status :: "jsval \<Rightarrow> bool" where
  "success_status s \<longleftrightarrow> s = JStr ''executed'' \<or> s = JStr ''success''"

definition failure_status :: "jsval \<Rightarrow> bool" where
  "failure_status s \<longleftrightarrow> s = JStr ''failed'' \<or> s = JStr ''invalid''"

text \<open>The body of the \<^verbatim>\<open>try\<close> block of one loop iteration.\<close>

definition poll_try :: "status_oracle \<Rightarrow> string \<Rightarrow> world \<Rightarrow> jsval completion \<times> world" where
  "poll_try net txHash w =
     (case getTransactionStatus net txHash w of
        (Inl e, w1) \<Rightarrow> (Throw e, w1)
      | (Inr status, w1) \<Rightarrow>
          (case get_prop status ''status'' of
             Inl e \<Rightarrow> (Throw e, w1)
           | Inr s \<Rightarrow>
               if success_status s then (Return status, w1)
               else if failure_status s then
                 (Throw (JsError (''Transaction failed: '' @ js_string s)), w1)
               else (Normal, sleep 2000 w1)))"

text \<open>
  The \<^verbatim>\<open>for (let i = 0; i < maxRetries; i++)\<close> loop from iteration \<open>i\<close> on. The
  \<^verbatim>\<open>catch\<close> clause encloses the whole \<^verbatim>\<open>try\<close> body, so it also receives the
  error thrown for a failed or invalid status.
\<close>

function wait_loop ::
  "status_oracle \<Rightarrow> string \<Rightarrow> int \<Rightarrow> int \<Rightarrow> world \<Rightarrow> (thrown + jsval) \<times> world" where
  "wait_loop net txHash maxRetries i w =
     (if i < maxRetries then
        (case poll_try net txHash w of
           (Return status, w1) \<Rightarrow> (Inr status, w1)
         | (Normal, w1) \<Rightarrow> wait_loop net txHash maxRetries (i + 1) w1
         | (Throw e, w1) \<Rightarrow>
             if i = maxRetries - 1 then (Inl e, w1)
             else wait_loop net txHash maxRetries (i + 1) (sleep 2000 w1))
      else (Inl (JsError ''Transaction timeout''), w))"
  by pat_completeness auto
termination
  by (relation "measure (\<lambda>(net, txHash, maxRetries, i, w). nat (maxRetries - i))") auto

definition waitForTransaction ::
  "status_oracle \<Rightarrow> string \<Rightarrow> int \<Rightarrow> world \<Rightarrow> (thrown + jsval) \<times> world" where
  "waitForTransaction net txHash maxRetries w = wait_loop net txHash maxRetries 0 w"

section \<open>Collaborators outside the repository\<close>

text \<open>
  The browser, the language's built-in functions and the MultiversX SDK are not part of
  the repository. They are parameters of the model: every theorem holds for all of them.
  A call that may throw or reject has a result of type \<open>thrown + 'a\<close>.
\<close>

datatype Address = Address jsval

datatype TypedValue =
    StringValue string
  | AddressValue Address
  | BytesValue string
  | OptionalValue "TypedValue option"

record Query =
  query_func :: string
  query_args :: "TypedValue list"

record Transaction =
  func :: string
  args :: "TypedValue list"
  gasLimit :: nat
  caller :: Address

record env =
  has_window :: bool
  elrondWallet_defined :: bool
  has_navigator :: bool
  usb_in_navigator :: bool
  location_origin :: string
  JSON_parse_text :: "string \<Rightarrow> thrown + jsval"
  JSON_stringify :: "jsval \<Rightarrow> string"
  StringToNumber :: "string \<Rightarrow> jsnumber"
  parseInt :: "string \<Rightarrow> jsnumber"
  ExtensionProvider_getInstance :: "thrown + backend"
  new_WebWalletProvider :: "string \<Rightarrow> thrown + backend"
  new_WalletConnectV2Provider :: "thrown + backend"
  new_LedgerProvider :: "thrown + backend"
  new_Address :: "jsval \<Rightarrow> thrown + Address"
  account_sync :: "Address \<Rightarrow> thrown + string"
  queryContract :: "Query \<Rightarrow> thrown + jsval"
  parseQueryResponse :: "jsval \<Rightarrow> (string \<times> string) list \<Rightarrow> thrown + jsval"
  response_isSuccess :: "jsval \<Rightarrow> thrown + bool"
  sendTransaction :: "Transaction \<Rightarrow> thrown + string"

text \<open>
  \<^verbatim>\<open>JSON.parse\<close>: no JSON text is empty, so the empty text is a SyntaxError; on any
  other text the result is the environment's.
\<close>

definition JSON_parse :: "env \<Rightarrow> string \<Rightarrow> thrown + jsval" where
  "JSON_parse env s =
     (if s = [] then Inl (JsError ''Unexpected end of JSON input'') else JSON_parse_text env s)"

text \<open>
  \<^verbatim>\<open>ToNumber\<close>, the conversion that \<^verbatim>\<open>-\<close> applies to its operands; the grammar of
  numeric strings is the environment's.
\<close>

fun to_number :: "env \<Rightarrow> jsval \<Rightarrow> jsnumber" where
  "to_number env JUndefined = NaN"
| "to_number env JNull = Num 0"
| "to_number env (JBool b) = Num (if b then 1 else 0)"
| "to_number env (JNum n) = n"
| "to_number env (JStr s) = StringToNumber env s"
| "to_number env (JArr xs) = StringToNumber env (js_string (JArr xs))"
| "to_number env (JObj kvs) = NaN"


fun js_less :: "jsnumber \<Rightarrow> jsnumber \<Rightarrow> bool" where
  "js_less (Num a) (Num b) = (a < b)"
| "js_less _ _ = False"

text \<open>\<^verbatim>\<open>error instanceof Error ? error.message : fallback\<close>\<close>

fun message_or :: "string \<Rightarrow> thrown \<Rightarrow> string" where
  "message_or fallback (JsError m) = m"
| "message_or fallback (NonError v) = fallback"

section \<open>Sequencing calls that may throw and that change the world\<close>

type_synonym 'a action = "world \<Rightarrow> (thrown + 'a) \<times> world"

definition ret :: "'a \<Rightarrow> 'a action" where
  "ret v w = (Inr v, w)"

definition throw :: "thrown \<Rightarrow> 'a action" where
  "throw e w = (Inl e, w)"

definition seq :: "'a action \<Rightarrow> ('a \<Rightarrow> 'b action) \<Rightarrow> 'b action" where
  "seq m f w = (case m w of (Inl e, w1) \<Rightarrow> (Inl e, w1) | (Inr v, w1) \<Rightarrow> f v w1)"

definition try_catch :: "'a action \<Rightarrow> (thrown \<Rightarrow> 'a action) \<Rightarrow> 'a action" where
  "try_catch body handler w =
     (case body w of (Inl e, w1) \<Rightarrow> handler e w1 | (Inr v, w1) \<Rightarrow> (Inr v, w1))"

text \<open>A call that stays inside the page (a constructor, a property read).\<close>

definition local_call :: "thrown + 'a \<Rightarrow> 'a action" where
  "local_call outcome w = (outcome, w)"

text \<open>An awaited call to a backend or to the network: it is recorded in the trace.\<close>

definition external_call :: "event \<Rightarrow> thrown + 'a \<Rightarrow> 'a action" where
  "external_call ev outcome w = (outcome, emit ev w)"

text \<open>The same sequencing for code that does not touch the world.\<close>

definition bindE :: "thrown + 'a \<Rightarrow> ('a \<Rightarrow> thrown + 'b) \<Rightarrow> thrown + 'b" where
  "bindE m f = (case m of Inl e \<Rightarrow> Inl e | Inr v \<Rightarrow> f v)"

fun mapE :: "('a \<Rightarrow> thrown + 'b) \<Rightarrow> 'a list \<Rightarrow> thrown + 'b list" where
  "mapE f [] = Inr []"
| "mapE f (x # xs) = bindE (f x) (\<lambda>y. bindE (mapE f xs) (\<lambda>ys. Inr (y # ys)))"

definition setItem :: "string \<Rightarrow> string \<Rightarrow> world \<Rightarrow> world" where
  "setItem k v w = w\<lparr>localStorage := (localStorage w)(k \<mapsto> v)\<rparr>"

definition removeItem :: "string \<Rightarrow> world \<Rightarrow> world" where
  "removeItem k w = w\<lparr>localStorage := (localStorage w)(k := None)\<rparr>"

section \<open>WalletService\<close>

record WalletProvider =
  provider_id :: string
  provider_name :: string
  iconUrl :: string
  isInstalled :: bool

text \<open>
  \<^verbatim>\<open>WalletState\<close>. The address is a JavaScript value because
  \<^verbatim>\<open>getCurrentWalletState\<close> copies it unchecked from the parsed blob; an absent
  address is \<^verbatim>\<open>undefined\<close>.
\<close>

record WalletState =
  isConnected :: bool
  address :: jsval
  balance :: "string option"
  provider :: "WalletProvider option"
  isLoading :: bool
  error :: "string option"

definition isExtensionInstalled :: "env \<Rightarrow> bool" where
  "isExtensionInstalled env \<longleftrightarrow> has_window env \<and> elrondWallet_defined env"

definition isLedgerSupported :: "env \<Rightarrow> bool" where
  "isLedgerSupported env \<longleftrightarrow> has_navigator env \<and> usb_in_navigator env"

definition getAvailableProviders :: "env \<Rightarrow> WalletProvider list" where
  "getAvailableProviders env =
     [\<lparr>provider_id = ''extension'', provider_name = ''MultiversX DeFi Wallet'',
        iconUrl = ''/icons/multiversx-extension.svg'', isInstalled = isExtensionInstalled env\<rparr>,
      \<lparr>provider_id = ''webwallet'', provider_name = ''Web Wallet'',
        iconUrl = ''/icons/web-wallet.svg'', isInstalled = True\<rparr>,
      \<lparr>provider_id = ''walletconnect'', provider_name = ''xPortal Mobile'',
        iconUrl = ''/icons/xportal.svg'', isInstalled = True\<rparr>,
      \<lparr>provider_id = ''ledger'', provider_name = ''Ledger Hardware'',
        iconUrl = ''/icons/ledger.svg'', isInstalled = isLedgerSupported env\<rparr>]"

definition find_provider :: "env \<Rightarrow> jsval \<Rightarrow> WalletProvider option" where
  "find_provider env providerId =
     find (\<lambda>p. JStr (provider_id p) = providerId) (getAvailableProviders env)"

definition disconnected :: WalletState where
  "disconnected =
     \<lparr>isConnected = False, address = JUndefined, balance = None, provider = None,
      isLoading = False, error = None\<rparr>"





text \<open>
  \<^verbatim>\<open>disconnectWallet\<close>: the \<^verbatim>\<open>try\<close> block calls \<^verbatim>\<open>logout\<close> where there is a
  provider and it has that method, the \<^verbatim>\<open>catch\<close> clause only logs, and the
  \<^verbatim>\<open>finally\<close> clause clears the handle and the stored blob.
\<close>

definition logout_try :: "unit action" where
  "logout_try w =
     (case currentProvider w of
        None \<Rightarrow> ret () w
      | Some p \<Rightarrow>
          (case logout_outcome p of
             None \<Rightarrow> ret () w
           | Some outcome \<Rightarrow> external_call ProviderLogout outcome w))"

definition disconnectWallet :: "unit action" where
  "disconnectWallet w =
     (case try_catch logout_try (\<lambda>error. ret ()) w of
        (r, w1) \<Rightarrow> (r, removeItem ''wallet_state'' (w1\<lparr>currentProvider := None\<rparr>)))"

text \<open>
  The destructuring \<^verbatim>\<open>const { a, b } = JSON.parse(stored)\<close>: a SyntaxError from the
  parser, a TypeError when the parsed value is \<^verbatim>\<open>null\<close>, else the two properties.
\<close>

definition parse_fields :: "env \<Rightarrow> string \<Rightarrow> string \<Rightarrow> string \<Rightarrow> thrown + jsval \<times> jsval" where
  "parse_fields env stored a b =
     bindE (JSON_parse env stored) (\<lambda>v.
     bindE (get_prop v a) (\<lambda>x.
     bindE (get_prop v b) (\<lambda>y. Inr (x, y))))"

text \<open>\<^verbatim>\<open>getCurrentWalletState\<close> is synchronous and never throws.\<close>

definition getCurrentWalletState :: "env \<Rightarrow> world \<Rightarrow> WalletState \<times> world" where
  "getCurrentWalletState env w =
     (case localStorage w ''wallet_state'' of
        None \<Rightarrow> (disconnected, w)
      | Some stored \<Rightarrow>
          if stored = [] then (disconnected, w)
          else
            (case parse_fields env stored ''providerId'' ''address'' of
               Inr (providerId, addr) \<Rightarrow>
                 (\<lparr>isConnected = True, address = addr, balance = None,
                   provider = find_provider env providerId, isLoading = False,
                   error = None\<rparr>, w)
             | Inl e \<Rightarrow> (disconnected, removeItem ''wallet_state'' w)))"

definition signAndSendTransaction :: "env \<Rightarrow> Transaction \<Rightarrow> string action" where
  "signAndSendTransaction env transaction w =
     (case currentProvider w of
        None \<Rightarrow> throw (JsError ''No wallet connected'') w
      | Some p \<Rightarrow>
          try_catch
            (seq (external_call SignTransaction (signTransaction_outcome p)) (\<lambda>u.
             external_call SendTransaction (sendTransaction env transaction)))
            (\<lambda>error. throw (JsError (message_or ''Transaction failed'' error))) w)"


section \<open>ContractService: the mutating calls\<close>

record CreateProofRequest =
  request_proof_text :: string
  request_proof_id :: string
  request_metadata :: "string option"

record UpdateProofRequest =
  update_proof_id :: string
  new_proof_text :: string
  new_metadata :: "string option"

text \<open>\<^verbatim>\<open>if (request.metadata)\<close>: an optional string is truthy when present and not empty.\<close>

fun provided :: "string option \<Rightarrow> bool" where
  "provided None = False"
| "provided (Some s) = (s \<noteq> [])"

text \<open>The \<^verbatim>\<open>args.push\<close> under \<^verbatim>\<open>if (request.metadata)\<close>: nothing is pushed otherwise.\<close>

definition metadata_arg :: "string option \<Rightarrow> TypedValue list" where
  "metadata_arg m = (if provided m then [StringValue (case m of Some s \<Rightarrow> s | None \<Rightarrow> [])] else [])"

definition createProof_args :: "CreateProofRequest \<Rightarrow> TypedValue list" where
  "createProof_args request =
     [StringValue (request_proof_text request), StringValue (request_proof_id request)] @
     metadata_arg (request_metadata request)"

definition updateProof_args :: "UpdateProofRequest \<Rightarrow> TypedValue list" where
  "updateProof_args request =
     [StringValue (update_proof_id request), StringValue (new_proof_text request)] @
     metadata_arg (new_metadata request)"

definition createProof :: "env \<Rightarrow> CreateProofRequest \<Rightarrow> string action" where
  "createProof env request w =
     (case getCurrentWalletState env w of
        (walletState, w1) \<Rightarrow>
          if \<not> isConnected walletState \<or> \<not> truthy (address walletState) then
            throw (JsError ''Wallet not connected'') w1
          else
            try_catch
              (seq (local_call (new_Address env (address walletState))) (\<lambda>sender.
               signAndSendTransaction env
                 \<lparr>func = ''certify_action'', args = createProof_args request,
                  gasLimit = 20000000, caller = sender\<rparr>))
              (\<lambda>error. throw (JsError (message_or ''Failed to create proof'' error))) w1)"

definition updateProof :: "env \<Rightarrow> UpdateProofRequest \<Rightarrow> string action" where
  "updateProof env request w =
     (case getCurrentWalletState env w of
        (walletState, w1) \<Rightarrow>
          if \<not> isConnected walletState \<or> \<not> truthy (address walletState) then
            throw (JsError ''Wallet not connected'') w1
          else
            try_catch
              (seq (local_call (new_Address env (address walletState))) (\<lambda>sender.
               signAndSendTransaction env
                 \<lparr>func = ''update_proof'', args = updateProof_args request,
                  gasLimit = 15000000, caller = sender\<rparr>))
              (\<lambda>error. throw (JsError (message_or ''Failed to update proof'' error))) w1)"

section \<open>ContractService: the read operations\<close>

record ProofData =
  proof_text :: string
  timestamp :: jsnumber
  proof_id :: string
  metadata :: string

text \<open>\<^verbatim>\<open>!response.returnData || response.returnData.length === 0\<close>\<close>

definition no_returnData :: "jsval \<Rightarrow> thrown + bool" where
  "no_returnData response =
     bindE (get_prop response ''returnData'') (\<lambda>returnData.
       if \<not> truthy returnData then Inr True
       else bindE (get_prop returnData ''length'') (\<lambda>n. Inr (n = JNum (Num 0))))"

text \<open>The object literal built from one decoded proof.\<close>

definition read_proof :: "env \<Rightarrow> jsval \<Rightarrow> thrown + ProofData" where
  "read_proof env proofData =
     bindE (bindE (get_prop proofData ''proof_text'') method_toString) (\<lambda>text.
     bindE (bindE (get_prop proofData ''timestamp'') method_toString) (\<lambda>ts.
     bindE (bindE (get_prop proofData ''proof_id'') method_toString) (\<lambda>ident.
     bindE (bindE (get_prop proofData ''metadata'') method_toString) (\<lambda>meta.
     Inr \<lparr>proof_text = text, timestamp = parseInt env ts, proof_id = ident,
          metadata = meta\<rparr>))))"

text \<open>
  \<^verbatim>\<open>decoded && decoded[0]\<close>: the value of the conjunction. Indexing is only reached
  for a truthy \<^verbatim>\<open>decoded\<close>, where it cannot throw.
\<close>

definition decoded_first :: "jsval \<Rightarrow> jsval" where
  "decoded_first decoded =
     (if \<not> truthy decoded then decoded
      else (case get_first decoded of Inl e \<Rightarrow> JUndefined | Inr v \<Rightarrow> v))"

text \<open>
  Each read operation is one \<^verbatim>\<open>try\<close> block, given here as a function of its own, and
  a \<^verbatim>\<open>catch\<close> clause that logs and returns the default.
\<close>

definition getProof_try :: "env \<Rightarrow> string \<Rightarrow> string \<Rightarrow> thrown + ProofData option" where
  "getProof_try env userAddress proofId =
     bindE (new_Address env (JStr userAddress)) (\<lambda>user.
     bindE (queryContract env
              \<lparr>query_func = ''getProof'',
               query_args = [AddressValue user, StringValue proofId]\<rparr>) (\<lambda>response.
     bindE (no_returnData response) (\<lambda>empty.
       if empty then Inr None
       else
         bindE (parseQueryResponse env response [(''proof_data'', ''optional<ProofData>'')])
           (\<lambda>decoded.
              if truthy (decoded_first decoded) then
                bindE (read_proof env (decoded_first decoded)) (\<lambda>p. Inr (Some p))
              else Inr None))))"

definition getProof :: "env \<Rightarrow> string \<Rightarrow> string \<Rightarrow> thrown + ProofData option" where
  "getProof env userAddress proofId =
     (case getProof_try env userAddress proofId of Inl err \<Rightarrow> Inr None | Inr r \<Rightarrow> Inr r)"

definition getUserProofs_try :: "env \<Rightarrow> string \<Rightarrow> thrown + ProofData list" where
  "getUserProofs_try env userAddress =
     bindE (new_Address env (JStr userAddress)) (\<lambda>user.
     bindE (queryContract env
              \<lparr>query_func = ''getUserProofs'', query_args = [AddressValue user]\<rparr>)
       (\<lambda>response.
     bindE (no_returnData response) (\<lambda>empty.
       if empty then Inr []
       else
         bindE (parseQueryResponse env response [(''proofs'', ''list<ProofData>'')])
           (\<lambda>decoded.
              case decoded_first decoded of
                JArr items \<Rightarrow> mapE (read_proof env) items
              | _ \<Rightarrow> Inr []))))"

definition getUserProofs :: "env \<Rightarrow> string \<Rightarrow> thrown + ProofData list" where
  "getUserProofs env userAddress =
     (case getUserProofs_try env userAddress of Inl err \<Rightarrow> Inr [] | Inr r \<Rightarrow> Inr r)"

text \<open>
  \<^verbatim>\<open>proofExists\<close> returns the value of \<^verbatim>\<open>decoded && decoded[0] === true\<close>, which
  is \<^verbatim>\<open>decoded\<close> itself when that is falsy.
\<close>

definition proofExists_try :: "env \<Rightarrow> string \<Rightarrow> thrown + jsval" where
  "proofExists_try env proofId =
     bindE (queryContract env
              \<lparr>query_func = ''proofExists'', query_args = [StringValue proofId]\<rparr>)
       (\<lambda>response.
     bindE (no_returnData response) (\<lambda>empty.
       if empty then Inr (JBool False)
       else
         bindE (parseQueryResponse env response [(''exists'', ''bool'')]) (\<lambda>decoded.
           if \<not> truthy decoded then Inr decoded
           else Inr (JBool (decoded_first decoded = JBool True)))))"

definition proofExists :: "env \<Rightarrow> string \<Rightarrow> thrown + jsval" where
  "proofExists env proofId =
     (case proofExists_try env proofId of Inl err \<Rightarrow> Inr (JBool False) | Inr r \<Rightarrow> Inr r)"

definition getProofOwner_try :: "env \<Rightarrow> string \<Rightarrow> thrown + string option" where
  "getProofOwner_try env proofId =
     bindE (queryContract env
              \<lparr>query_func = ''getProofOwner'', query_args = [StringValue proofId]\<rparr>)
       (\<lambda>response.
     bindE (no_returnData response) (\<lambda>empty.
       if empty then Inr None
       else
         bindE (parseQueryResponse env response [(''owner'', ''optional<address>'')])
           (\<lambda>decoded.
              if truthy (decoded_first decoded) then
                bindE (method_toString (decoded_first decoded)) (\<lambda>s. Inr (Some s))
              else Inr None)))"

definition getProofOwner :: "env \<Rightarrow> string \<Rightarrow> thrown + string option" where
  "getProofOwner env proofId =
     (case getProofOwner_try env proofId of Inl err \<Rightarrow> Inr None | Inr r \<Rightarrow> Inr r)"

text \<open>The part the two counting operations share, after the query has been built.\<close>

definition count_try :: "env \<Rightarrow> Query \<Rightarrow> string \<Rightarrow> thrown + jsnumber" where
  "count_try env query result_name =
     bindE (queryContract env query) (\<lambda>response.
     bindE (no_returnData response) (\<lambda>empty.
       if empty then Inr (Num 0)
       else
         bindE (parseQueryResponse env response [(result_name, ''u64'')]) (\<lambda>decoded.
           if truthy (decoded_first decoded) then
             bindE (method_toString (decoded_first decoded)) (\<lambda>s. Inr (parseInt env s))
           else Inr (Num 0))))"

definition getUserProofCount :: "env \<Rightarrow> string \<Rightarrow> thrown + jsnumber" where
  "getUserProofCount env userAddress =
     (case bindE (new_Address env (JStr userAddress)) (\<lambda>user.
             count_try env
               \<lparr>query_func = ''getUserProofCount'', query_args = [AddressValue user]\<rparr>
               ''count'') of
        Inl err \<Rightarrow> Inr (Num 0)
      | Inr r \<Rightarrow> Inr r)"

definition getTotalProofs :: "env \<Rightarrow> thrown + jsnumber" where
  "getTotalProofs env =
     (case count_try env \<lparr>query_func = ''getTotalProofs'', query_args = []\<rparr> ''total'' of
        Inl err \<Rightarrow> Inr (Num 0)
      | Inr r \<Rightarrow> Inr r)"

section \<open>The standalone ContractService of frontend-modern/src/utils/contractService.ts\<close>

text \<open>
  The repository has a second class of the same name, constructed from a deployment
  configuration. Its read operations log an error and throw it again, and its mutating
  operations always pass three arguments. Its members carry the suffix \<open>_standalone\<close>
  where the name is taken.
\<close>

text \<open>\<^verbatim>\<open>x?.toString() || fallback\<close>\<close>

definition toString_or :: "string \<Rightarrow> jsval \<Rightarrow> string" where
  "toString_or fallback x =
     (if x = JUndefined \<or> x = JNull then fallback
      else if js_string x = [] then fallback else js_string x)"

definition parseProofData :: "env \<Rightarrow> jsval \<Rightarrow> thrown + ProofData" where
  "parseProofData env data =
     bindE (get_prop data ''proof_text'') (\<lambda>text.
     bindE (get_prop data ''timestamp'') (\<lambda>ts.
     bindE (get_prop data ''proof_id'') (\<lambda>ident.
     bindE (get_prop data ''metadata'') (\<lambda>meta.
     Inr \<lparr>proof_text = toString_or [] text, timestamp = parseInt env (toString_or ''0'' ts),
          proof_id = toString_or [] ident, metadata = toString_or [] meta\<rparr>))))"

text \<open>\<^verbatim>\<open>queryResponse.isSuccess() && queryResponse.returnData.length > 0\<close>\<close>

definition has_returnData :: "env \<Rightarrow> jsval \<Rightarrow> thrown + bool" where
  "has_returnData env queryResponse =
     bindE (response_isSuccess env queryResponse) (\<lambda>ok.
       if \<not> ok then Inr False
       else
         bindE (get_prop queryResponse ''returnData'') (\<lambda>returnData.
         bindE (get_prop returnData ''length'') (\<lambda>n.
         Inr (js_less (Num 0) (to_number env n)))))"

definition getProof_standalone :: "env \<Rightarrow> string \<Rightarrow> string \<Rightarrow> thrown + ProofData option" where
  "getProof_standalone env userAddress proofId =
     (case
        bindE (new_Address env (JStr userAddress)) (\<lambda>user.
        bindE (queryContract env
                 \<lparr>query_func = ''getProof'',
                  query_args = [AddressValue user, BytesValue proofId]\<rparr>) (\<lambda>queryResponse.
        bindE (has_returnData env queryResponse) (\<lambda>present.
          if present then
            bindE (parseQueryResponse env queryResponse [(''getProof'', ''endpoint'')])
              (\<lambda>result.
            bindE (get_first result) (\<lambda>first.
            bindE (parseProofData env first) (\<lambda>p. Inr (Some p))))
          else Inr None)))
      of Inl err \<Rightarrow> Inl err | Inr r \<Rightarrow> Inr r)"

record CertifyActionParams =
  certify_proofText :: string
  certify_proofId :: string
  certify_metadata :: "string option"

record UpdateProofParams =
  update_proofId :: string
  newProofText :: string
  newMetadata :: "string option"

text \<open>
  The \<^verbatim>\<open>if (params.metadata) ... else ...\<close> of the standalone class: both branches
  push an \<^verbatim>\<open>OptionalValue\<close>, an empty one when there is no metadata.
\<close>

definition optional_metadata_arg :: "string option \<Rightarrow> TypedValue list" where
  "optional_metadata_arg m =
     (if provided m
      then [OptionalValue (Some (BytesValue (case m of Some s \<Rightarrow> s | None \<Rightarrow> [])))]
      else [OptionalValue None])"

text \<open>The argument lists \<^verbatim>\<open>certifyAction\<close> and \<^verbatim>\<open>updateProof\<close> build before they sign.\<close>

definition certifyAction_args :: "CertifyActionParams \<Rightarrow> TypedValue list" where
  "certifyAction_args params =
     [BytesValue (certify_proofText params), BytesValue (certify_proofId params)] @
     optional_metadata_arg (certify_metadata params)"

definition updateProof_standalone_args :: "UpdateProofParams \<Rightarrow> TypedValue list" where
  "updateProof_standalone_args params =
     [BytesValue (update_proofId params), BytesValue (newProofText params)] @
     optional_metadata_arg (newMetadata params)"

section \<open>Classifying a status poll\<close>

text \<open>The status a poll reports: none when the request rejects or the reply has no readable status.\<close>

definition reported_status :: "thrown + jsval \<Rightarrow> jsval option" where
  "reported_status r =
     (case r of
        Inl e \<Rightarrow> None
      | Inr v \<Rightarrow> (case get_prop v ''status'' of Inl e \<Rightarrow> None | Inr s \<Rightarrow> Some s))"

definition success_poll :: "thrown + jsval \<Rightarrow> bool" where
  "success_poll r = (case reported_status r of None \<Rightarrow> False | Some s \<Rightarrow> success_status s)"

definition nonterminal_poll :: "thrown + jsval \<Rightarrow> bool" where
  "nonterminal_poll r =
     (case reported_status r of
        None \<Rightarrow> False
      | Some s \<Rightarrow> \<not> success_status s \<and> \<not> failure_status s)"

text \<open>The world after \<open>k\<close> rounds of one status poll followed by one two-second wait.\<close>

fun retry_rounds :: "string \<Rightarrow> nat \<Rightarrow> world \<Rightarrow> world" where
  "retry_rounds h 0 w = w"
| "retry_rounds h (Suc k) w = retry_rounds h k (sleep 2000 (emit (StatusPoll h) w))"

section \<open>Concrete collaborators for evaluation\<close>

text \<open>
  A page that has just loaded: nothing stored, no provider, the clock at some instant.
\<close>

definition fresh_world :: world where
  "fresh_world =
     \<lparr>localStorage = Map.empty, currentProvider = None, clock = 1700000000000, trace = []\<rparr>"

definition status_reply :: "string \<Rightarrow> thrown + jsval" where
  "status_reply s = Inr (JObj [(''status'', JStr s)])"

text \<open>A transaction whose first status is failed, then pending, then success.\<close>

definition failed_then_success :: status_oracle where
  "failed_then_success txHash n =
     (if n = 0 then status_reply ''failed''
      else if n = 1 then status_reply ''pending''
      else status_reply ''success'')"

definition always_pending :: status_oracle where
  "always_pending txHash n = status_reply ''pending''"

definition pending_then_executed :: status_oracle where
  "pending_then_executed txHash n =
     (if n < 2 then status_reply ''pending'' else status_reply ''executed'')"

text \<open>
  \<^verbatim>\<open>JSON.stringify\<close> on values whose strings need no escaping, and the fragment of
  \<^verbatim>\<open>JSON.parse\<close> on the texts used below: the literal \<^verbatim>\<open>null\<close>, a session
  without an address, and the text of a stored session.
\<close>

fun stringify :: "jsval \<Rightarrow> string" where
  "stringify JUndefined = ''undefined''"
| "stringify JNull = ''null''"
| "stringify (JBool b) = js_string (JBool b)"
| "stringify (JNum n) = (if n = NaN then ''null'' else js_string (JNum n))"
| "stringify (JStr s) = [CHR 0x22] @ s @ [CHR 0x22]"
| "stringify (JArr xs) = ''['' @ join_comma (map stringify xs) @ '']''"
| "stringify (JObj kvs) =
     ''{'' @ join_comma (map (\<lambda>(k, v). [CHR 0x22] @ k @ [CHR 0x22] @ '':'' @ stringify v) kvs)
       @ ''}''"

definition alice :: string where
  "alice = ''erd1qyu5wthldzr8wx5c9ucg8kjagg0jfs53s8nr3zpz3hypefsdd8ssycr6th''"

definition session_blob :: "string \<Rightarrow> int \<Rightarrow> jsval" where
  "session_blob providerId connectedAt =
     JObj [(''providerId'', JStr providerId), (''address'', JStr alice),
           (''connectedAt'', JNum (Num connectedAt))]"

definition parse_known :: "jsval list \<Rightarrow> string \<Rightarrow> thrown + jsval" where
  "parse_known known s =
     (case find (\<lambda>v. stringify v = s) known of
        Some v \<Rightarrow> Inr v
      | None \<Rightarrow> Inl (JsError ''Unexpected token''))"

definition working_backend :: backend where
  "working_backend =
     \<lparr>init_outcome = Inr (), login_outcome = Inr alice, signTransaction_outcome = Inr (),
      logout_outcome = Some (Inr ())\<rparr>"


text \<open>A browser with the extension installed and a network that answers.\<close>

definition online_env :: env where
  "online_env =
     \<lparr>has_window = True, elrondWallet_defined = True, has_navigator = True,
      usb_in_navigator = False, location_origin = ''https://proof.example'',
      JSON_parse_text =
        parse_known [JNull, JObj [(''providerId'', JStr ''extension'')],
                     session_blob ''extension'' 1600000000000,
                     session_blob ''extension'' 1699999000000,
                     session_blob ''webwallet'' 1699999000000],
      JSON_stringify = stringify,
      StringToNumber = (\<lambda>s. NaN),
      parseInt = (\<lambda>s. if s = ''7'' then Num 7 else NaN),
      ExtensionProvider_getInstance = Inr working_backend,
      new_WebWalletProvider = (\<lambda>url. Inr working_backend),
      new_WalletConnectV2Provider = Inr working_backend,
      new_LedgerProvider = Inr working_backend,
      new_Address = (\<lambda>v. if v = JStr alice then Inr (Address v)
                           else Inl (JsError ''Address cannot be created'')),
      account_sync = (\<lambda>a. Inr ''1000000000000000000''),
      queryContract = (\<lambda>q. Inr (JObj [(''returnData'', JArr [])])),
      parseQueryResponse = (\<lambda>r spec. Inl (JsError ''cannot decode'')),
      response_isSuccess = (\<lambda>r. Inr True),
      sendTransaction = (\<lambda>t. Inr ''a1b2c3'')\<rparr>"

text \<open>The same browser with a network provider that throws on every call.\<close>

definition offline_env :: env where
  "offline_env =
     online_env\<lparr>account_sync := (\<lambda>a. Inl (JsError ''Network Error'')),
                queryContract := (\<lambda>q. Inl (JsError ''Network Error'')),
                sendTransaction := (\<lambda>t. Inl (JsError ''Network Error''))\<rparr>"


text \<open>A network that answers with data the parser rejects.\<close>

definition garbled_env :: env where
  "garbled_env =
     online_env\<lparr>queryContract := (\<lambda>q. Inr (JObj [(''returnData'', JArr [JStr ''AA==''])]))\<rparr>"

text \<open>A network that answers with one proof, and a parser that decodes it.\<close>

definition decoded_proof :: jsval where
  "decoded_proof =
     JObj [(''proof_text'', JStr ''T''), (''timestamp'', JNum (Num 7)),
           (''proof_id'', JStr ''X''), (''metadata'', JStr ''{}'')]"

definition serving_env :: env where
  "serving_env = garbled_env\<lparr>parseQueryResponse := (\<lambda>r spec. Inr (JArr [decoded_proof]))\<rparr>"

text \<open>The same with a decoded proof that has no metadata field.\<close>

definition partial_env :: env where
  "partial_env =
     garbled_env\<lparr>parseQueryResponse :=
       (\<lambda>r spec. Inr (JArr [JObj [(''proof_text'', JStr ''T''), (''timestamp'', JNum (Num 7)),
                                  (''proof_id'', JStr ''X'')]]))\<rparr>"

text \<open>A network on which only the \<^verbatim>\<open>getProof\<close> query fails.\<close>

definition picky_env :: env where
  "picky_env =
     online_env\<lparr>queryContract :=
       (\<lambda>q. if query_func q = ''getProof'' then Inl (JsError ''Request failed'')
            else Inr (JObj [(''returnData'', JArr [])]))\<rparr>"


definition stored_session :: "string \<Rightarrow> world" where
  "stored_session text = setItem ''wallet_state'' text fresh_world"

section \<open>A condition on the SDK\<close>


section \<open>The polling loop\<close>

declare wait_loop.simps [simp del]

lemmas action_defs = ret_def throw_def seq_def try_catch_def local_call_def external_call_def

lemma polls_made_emit_poll [simp]: "polls_made (emit (StatusPoll h) w) = Suc (polls_made w)"
  by (simp add: polls_made_def emit_def)

lemma polls_made_sleep [simp]: "polls_made (sleep ms w) = polls_made w"
  by (simp add: polls_made_def sleep_def emit_def)

lemma trace_emit [simp]: "trace (emit e w) = trace w @ [e]"
  by (simp add: emit_def)

lemma trace_sleep [simp]: "trace (sleep ms w) = trace w @ [Sleep ms]"
  by (simp add: sleep_def emit_def)

lemma polls_made_retry_rounds [simp]: "polls_made (retry_rounds h k w) = polls_made w + k"
  by (induction k arbitrary: w) simp_all

lemma trace_retry_rounds:
  "trace (retry_rounds h k w) = trace w @ concat (replicate k [StatusPoll h, Sleep 2000])"
  by (induction k arbitrary: w) simp_all

text \<open>One iteration, by the kind of poll.\<close>

lemma poll_try_success:
  assumes "net h (polls_made w) = Inr status" and "success_poll (Inr status)"
  shows "poll_try net h w = (Return status, emit (StatusPoll h) w)"
  using assms
  by (auto simp: poll_try_def getTransactionStatus_def success_poll_def reported_status_def
        split: sum.splits)

lemma poll_try_nonterminal:
  assumes "nonterminal_poll (net h (polls_made w))"
  shows "poll_try net h w = (Normal, sleep 2000 (emit (StatusPoll h) w))"
  using assms
  by (auto simp: poll_try_def getTransactionStatus_def nonterminal_poll_def reported_status_def
        split: sum.splits)

lemma poll_try_failure:
  assumes "net h (polls_made w) = Inr status" and "get_prop status ''status'' = Inr (JStr s)"
    and "failure_status (JStr s)"
  shows "poll_try net h w = (Throw (JsError (''Transaction failed: '' @ s)), emit (StatusPoll h) w)"
  using assms
  by (auto simp: poll_try_def getTransactionStatus_def success_status_def failure_status_def)

lemma poll_try_world:
  "snd (poll_try net h w) = emit (StatusPoll h) w \<or>
   (fst (poll_try net h w) = Normal \<and>
    snd (poll_try net h w) = sleep 2000 (emit (StatusPoll h) w))"
  by (simp add: poll_try_def getTransactionStatus_def split: sum.splits)

lemma poll_try_not_success:
  assumes "\<not> success_poll (net h (polls_made w))"
  shows "poll_try net h w = (Normal, sleep 2000 (emit (StatusPoll h) w)) \<or>
         (\<exists>e. poll_try net h w = (Throw e, emit (StatusPoll h) w))"
  using assms
  by (auto simp: poll_try_def getTransactionStatus_def success_poll_def reported_status_def
        split: sum.splits)

text \<open>The loop, one step at a time.\<close>

lemma wait_loop_success:
  assumes "i < m" and "net h (polls_made w) = Inr status" and "success_poll (Inr status)"
  shows "wait_loop net h m i w = (Inr status, emit (StatusPoll h) w)"
  using assms(1) poll_try_success[of net h w status] assms(2,3)
  by (subst wait_loop.simps) simp

lemma wait_loop_retry:
  assumes "i < m" and "i \<noteq> m - 1" and "\<not> success_poll (net h (polls_made w))"
  shows "wait_loop net h m i w = wait_loop net h m (i + 1) (sleep 2000 (emit (StatusPoll h) w))"
  using assms(1,2) poll_try_not_success[of net h w] assms(3)
  by (subst wait_loop.simps) auto

lemma wait_loop_nonterminal:
  assumes "i < m" and "nonterminal_poll (net h (polls_made w))"
  shows "wait_loop net h m i w = wait_loop net h m (i + 1) (sleep 2000 (emit (StatusPoll h) w))"
  using assms(1) poll_try_nonterminal[of net h w] assms(2)
  by (subst wait_loop.simps) simp

lemma wait_loop_exhausted:
  "\<not> i < m \<Longrightarrow> wait_loop net h m i w = (Inl (JsError ''Transaction timeout''), w)"
  by (subst wait_loop.simps) simp

text \<open>
  A failed or invalid status is thrown inside the \<^verbatim>\<open>try\<close> block, so the loop's own
  \<^verbatim>\<open>catch\<close> clause receives it: the error leaves the function on the last iteration
  only, and on every earlier one the loop waits and polls again.
\<close>

lemma wait_loop_failure_last:
  assumes "i = m - 1" and "net h (polls_made w) = Inr status"
    and "get_prop status ''status'' = Inr (JStr s)" and "failure_status (JStr s)"
  shows "wait_loop net h m i w =
           (Inl (JsError (''Transaction failed: '' @ s)), emit (StatusPoll h) w)"
  using assms(1) poll_try_failure[of net h w status s] assms(2-4)
  by (subst wait_loop.simps) simp

lemma wait_loop_failure_earlier:
  assumes "i < m - 1" and "net h (polls_made w) = Inr status"
    and "get_prop status ''status'' = Inr (JStr s)" and "failure_status (JStr s)"
  shows "wait_loop net h m i w = wait_loop net h m (i + 1) (sleep 2000 (emit (StatusPoll h) w))"
  using assms(1) poll_try_failure[of net h w status s] assms(2-4)
  by (subst wait_loop.simps) simp

lemma wait_loop_first_success:
  assumes "i + int k < m"
    and "net h (polls_made w + k) = Inr status"
    and "success_poll (Inr status)"
    and "\<forall>j<k. \<not> success_poll (net h (polls_made w + j))"
  shows "wait_loop net h m i w = (Inr status, emit (StatusPoll h) (retry_rounds h k w))"
  using assms
proof (induction k arbitrary: i w)
  case 0
  then show ?case by (simp add: wait_loop_success)
next
  case (Suc k)
  let ?w = "sleep 2000 (emit (StatusPoll h) w)"
  from Suc.prems have first: "\<not> success_poll (net h (polls_made w))"
    by (metis add.right_neutral zero_less_Suc)
  have step: "wait_loop net h m i w = wait_loop net h m (i + 1) ?w"
    using Suc.prems(1) first by (intro wait_loop_retry) auto
  have "wait_loop net h m (i + 1) ?w = (Inr status, emit (StatusPoll h) (retry_rounds h k ?w))"
  proof (rule Suc.IH)
    show "i + 1 + int k < m" using Suc.prems(1) by simp
    show "net h (polls_made ?w + k) = Inr status" using Suc.prems(2) by simp
    show "success_poll (Inr status)" by (rule Suc.prems(3))
    show "\<forall>j<k. \<not> success_poll (net h (polls_made ?w + j))"
    proof (intro allI impI)
      fix j assume "j < k"
      then have "Suc j < Suc k" by simp
      with Suc.prems(4) have "\<not> success_poll (net h (polls_made w + Suc j))" by blast
      then show "\<not> success_poll (net h (polls_made ?w + j))" by simp
    qed
  qed
  with step show ?case by simp
qed

lemma wait_loop_all_nonterminal:
  assumes "i + int k = m"
    and "\<forall>j<k. nonterminal_poll (net h (polls_made w + j))"
  shows "wait_loop net h m i w = (Inl (JsError ''Transaction timeout''), retry_rounds h k w)"
  using assms
proof (induction k arbitrary: i w)
  case 0
  then show ?case by (simp add: wait_loop_exhausted)
next
  case (Suc k)
  let ?w = "sleep 2000 (emit (StatusPoll h) w)"
  from Suc.prems have first: "nonterminal_poll (net h (polls_made w))"
    by (metis add.right_neutral zero_less_Suc)
  have step: "wait_loop net h m i w = wait_loop net h m (i + 1) ?w"
    using Suc.prems(1) first by (intro wait_loop_nonterminal) auto
  have "wait_loop net h m (i + 1) ?w =
          (Inl (JsError ''Transaction timeout''), retry_rounds h k ?w)"
  proof (rule Suc.IH)
    show "i + 1 + int k = m" using Suc.prems(1) by simp
    show "\<forall>j<k. nonterminal_poll (net h (polls_made ?w + j))"
    proof (intro allI impI)
      fix j assume "j < k"
      then have "Suc j < Suc k" by simp
      with Suc.prems(2) have "nonterminal_poll (net h (polls_made w + Suc j))" by blast
      then show "nonterminal_poll (net h (polls_made ?w + j))" by simp
    qed
  qed
  with step show ?case by simp
qed

lemma wait_loop_poll_bound:
  "polls_made (snd (wait_loop net h m i w)) \<le> polls_made w + nat (m - i)"
proof (induction net h m i w rule: wait_loop.induct)
  case (1 net txHash maxRetries i w)
  show ?case
  proof (cases "i < maxRetries")
    case False
    then show ?thesis by (simp add: wait_loop_exhausted)
  next
    case True
    obtain c w1 where pt: "poll_try net txHash w = (c, w1)"
      by (cases "poll_try net txHash w")
    have w1: "polls_made w1 = Suc (polls_made w)"
      using pt poll_try_world[of net txHash w] by auto
    show ?thesis
    proof (cases c)
      case Normal
      with 1(1)[OF True pt[symmetric]] pt True w1 show ?thesis
        by (subst wait_loop.simps) auto
    next
      case (Return v)
      with pt True w1 show ?thesis
        by (subst wait_loop.simps) auto
    next
      case (Throw e)
      show ?thesis
      proof (cases "i = maxRetries - 1")
        case True
        with Throw pt \<open>i < maxRetries\<close> w1 show ?thesis
          by (subst wait_loop.simps) simp
      next
        case False
        with 1(2)[OF True pt[symmetric] Throw False] Throw pt True w1 show ?thesis
          by (subst wait_loop.simps) auto
      qed
    qed
  qed
qed

text \<open>
  C1. The claim: for every maxRetries of at least 1, a poll that reports failed or invalid
  makes waitForTransaction raise on that same poll, with no further poll. The code throws
  inside its own try block, so the error is caught and the loop goes on unless the poll
  was the last one. Here the first of three polls reports failed: the call polls twice
  more and returns the success status of the third poll.
\<close>

theorem C1_failed_status_is_retried:
  "fst (waitForTransaction failed_then_success ''a1b2c3'' 3 fresh_world) =
     Inr (JObj [(''status'', JStr ''success'')]) \<and>
   trace (snd (waitForTransaction failed_then_success ''a1b2c3'' 3 fresh_world)) =
     [StatusPoll ''a1b2c3'', Sleep 2000, StatusPoll ''a1b2c3'', Sleep 2000,
      StatusPoll ''a1b2c3'']"
  by (simp add: waitForTransaction_def wait_loop.simps poll_try_def getTransactionStatus_def
        failed_then_success_def status_reply_def success_status_def failure_status_def
        polls_made_def emit_def sleep_def fresh_world_def)

text \<open>
  C3. When every poll reports a status that is neither a success nor a failure,
  waitForTransaction with maxRetries of at least 1 polls exactly maxRetries times, each
  poll followed by a two-second wait, and then raises the timeout error. Whatever the
  polls report, it never polls more than maxRetries times.
\<close>

theorem C3_timeout_after_maxRetries_polls:
  "polls_made (snd (waitForTransaction net txHash maxRetries w))
     \<le> polls_made w + nat maxRetries \<and>
   (1 \<le> maxRetries \<and>
    (\<forall>j < nat maxRetries. nonterminal_poll (net txHash (polls_made w + j))) \<longrightarrow>
      fst (waitForTransaction net txHash maxRetries w) = Inl (JsError ''Transaction timeout'') \<and>
      polls_made (snd (waitForTransaction net txHash maxRetries w))
        = polls_made w + nat maxRetries \<and>
      trace (snd (waitForTransaction net txHash maxRetries w)) =
        trace w @ concat (replicate (nat maxRetries) [StatusPoll txHash, Sleep 2000]))"
proof (intro conjI impI)
  show "polls_made (snd (waitForTransaction net txHash maxRetries w))
          \<le> polls_made w + nat maxRetries"
    using wait_loop_poll_bound[of net txHash maxRetries 0 w]
    by (simp add: waitForTransaction_def)
next
  assume h: "1 \<le> maxRetries \<and>
    (\<forall>j < nat maxRetries. nonterminal_poll (net txHash (polls_made w + j)))"
  then have "0 + int (nat maxRetries) = maxRetries" by simp
  with h have run: "waitForTransaction net txHash maxRetries w =
      (Inl (JsError ''Transaction timeout''), retry_rounds txHash (nat maxRetries) w)"
    unfolding waitForTransaction_def by (intro wait_loop_all_nonterminal) auto
  show "fst (waitForTransaction net txHash maxRetries w) = Inl (JsError ''Transaction timeout'')"
    by (simp add: run)
  show "polls_made (snd (waitForTransaction net txHash maxRetries w))
          = polls_made w + nat maxRetries"
    by (simp add: run)
  show "trace (snd (waitForTransaction net txHash maxRetries w)) =
          trace w @ concat (replicate (nat maxRetries) [StatusPoll txHash, Sleep 2000])"
    by (simp add: run trace_retry_rounds)
qed

text \<open>C3 at three retries and a transaction that stays pending.\<close>

theorem C3_timeout_after_maxRetries_polls_witness:
  "fst (waitForTransaction always_pending ''a1b2c3'' 3 fresh_world) =
     Inl (JsError ''Transaction timeout'') \<and>
   polls_made (snd (waitForTransaction always_pending ''a1b2c3'' 3 fresh_world)) = 3 \<and>
   trace (snd (waitForTransaction always_pending ''a1b2c3'' 3 fresh_world)) =
     [StatusPoll ''a1b2c3'', Sleep 2000, StatusPoll ''a1b2c3'', Sleep 2000,
      StatusPoll ''a1b2c3'', Sleep 2000]"
proof -
  have pending: "\<forall>j < nat 3. nonterminal_poll (always_pending ''a1b2c3'' (polls_made fresh_world + j))"
    by (simp add: always_pending_def status_reply_def nonterminal_poll_def reported_status_def
          success_status_def failure_status_def)
  have start: "polls_made fresh_world = 0" "trace fresh_world = []"
    by (simp_all add: polls_made_def fresh_world_def)
  have three: "replicate (nat 3) [StatusPoll ''a1b2c3'', Sleep 2000] =
      [[StatusPoll ''a1b2c3'', Sleep 2000], [StatusPoll ''a1b2c3'', Sleep 2000],
       [StatusPoll ''a1b2c3'', Sleep 2000]]"
    by (simp add: eval_nat_numeral)
  show ?thesis
    using C3_timeout_after_maxRetries_polls[of always_pending "''a1b2c3''" 3 fresh_world]
      pending start three
    by simp
qed

text \<open>
  C6. waitForTransaction returns on the first poll that reports executed or success: when
  poll number k (counted from 0, with k less than maxRetries) is the first such poll, the
  call returns the status object of that poll, and its trace is k rounds of a poll and a
  two-second wait followed by that one poll, with nothing after it.
\<close>

theorem C6_returns_on_first_success_poll:
  assumes "int k < maxRetries"
    and "net txHash (polls_made w + k) = Inr status"
    and "success_poll (Inr status)"
    and "\<forall>j<k. \<not> success_poll (net txHash (polls_made w + j))"
  shows "fst (waitForTransaction net txHash maxRetries w) = Inr status \<and>
         trace (snd (waitForTransaction net txHash maxRetries w)) =
           trace w @ concat (replicate k [StatusPoll txHash, Sleep 2000]) @ [StatusPoll txHash]"
proof -
  have "waitForTransaction net txHash maxRetries w =
          (Inr status, emit (StatusPoll txHash) (retry_rounds txHash k w))"
    unfolding waitForTransaction_def using assms by (intro wait_loop_first_success) auto
  then show ?thesis by (simp add: trace_retry_rounds)
qed

text \<open>C6 at the default of ten retries and a transaction executed at its third poll.\<close>

theorem C6_returns_on_first_success_poll_witness:
  "fst (waitForTransaction pending_then_executed ''a1b2c3'' 10 fresh_world) =
     Inr (JObj [(''status'', JStr ''executed'')]) \<and>
   trace (snd (waitForTransaction pending_then_executed ''a1b2c3'' 10 fresh_world)) =
     [StatusPoll ''a1b2c3'', Sleep 2000, StatusPoll ''a1b2c3'', Sleep 2000,
      StatusPoll ''a1b2c3'']"
proof -
  have start: "polls_made fresh_world = 0" "trace fresh_world = []"
    by (simp_all add: polls_made_def fresh_world_def)
  have third: "pending_then_executed ''a1b2c3'' (polls_made fresh_world + 2) =
      Inr (JObj [(''status'', JStr ''executed'')])"
    by (simp add: start pending_then_executed_def status_reply_def)
  have ok: "success_poll (Inr (JObj [(''status'', JStr ''executed'')]))"
    by (simp add: success_poll_def reported_status_def success_status_def)
  have before: "\<forall>j<2. \<not> success_poll (pending_then_executed ''a1b2c3'' (polls_made fresh_world + j))"
    by (simp add: start pending_then_executed_def status_reply_def success_poll_def
          reported_status_def success_status_def)
  have two: "replicate 2 [StatusPoll ''a1b2c3'', Sleep 2000] =
      [[StatusPoll ''a1b2c3'', Sleep 2000], [StatusPoll ''a1b2c3'', Sleep 2000]]"
    by (simp add: eval_nat_numeral)
  have bound: "int 2 < 10" by simp
  show ?thesis
    using C6_returns_on_first_success_poll[of 2 10 pending_then_executed "''a1b2c3''"
        fresh_world "JObj [(''status'', JStr ''executed'')]"]
      bound third ok before start two
    by simp
qed

section \<open>The wallet session\<close>







lemma getCurrentWalletState_trace:
  "trace (snd (getCurrentWalletState env w)) = trace w \<and>
   currentProvider (snd (getCurrentWalletState env w)) = currentProvider w"
  by (simp add: getCurrentWalletState_def removeItem_def
        split: option.splits sum.splits prod.splits)

text \<open>
  C5. When the current wallet state is disconnected (isConnected is false, or the address
  is absent or otherwise falsy), createProof and updateProof both fail with the error
  ``Wallet not connected'', and nothing has been added to the trace of network and backend
  calls: no query, no signing, no broadcast.
\<close>

theorem C5_disconnected_fails_before_network:
  assumes "getCurrentWalletState env w = (walletState, w1)"
    and "\<not> isConnected walletState \<or> \<not> truthy (address walletState)"
  shows "createProof env request w = (Inl (JsError ''Wallet not connected''), w1) \<and>
         updateProof env update w = (Inl (JsError ''Wallet not connected''), w1) \<and>
         trace w1 = trace w"
proof -
  have "trace w1 = trace w"
    using getCurrentWalletState_trace[of env w] assms(1) by simp
  then show ?thesis
    using assms by (auto simp: createProof_def updateProof_def throw_def)
qed

text \<open>
  C5 on a page with nothing stored, and on a page whose stored session has a provider id
  but no address.
\<close>

theorem C5_disconnected_fails_before_network_witness:
  "createProof online_env
     \<lparr>request_proof_text = ''T'', request_proof_id = ''X'', request_metadata = None\<rparr>
     fresh_world = (Inl (JsError ''Wallet not connected''), fresh_world) \<and>
   updateProof online_env
     \<lparr>update_proof_id = ''X'', new_proof_text = ''T2'', new_metadata = None\<rparr>
     fresh_world = (Inl (JsError ''Wallet not connected''), fresh_world) \<and>
   fst (createProof online_env
     \<lparr>request_proof_text = ''T'', request_proof_id = ''X'', request_metadata = None\<rparr>
     (stored_session (stringify (JObj [(''providerId'', JStr ''extension'')])))) =
     Inl (JsError ''Wallet not connected'')"
proof -
  let ?w = "stored_session (stringify (JObj [(''providerId'', JStr ''extension'')]))"
  let ?ws = "\<lparr>isConnected = True, address = JUndefined, balance = None,
              provider = find_provider online_env (JStr ''extension''), isLoading = False,
              error = None\<rparr>"
  have empty_page: "getCurrentWalletState online_env fresh_world = (disconnected, fresh_world)"
    by (simp add: getCurrentWalletState_def fresh_world_def)
  have off: "\<not> isConnected disconnected \<or> \<not> truthy (address disconnected)"
    by (simp add: disconnected_def)
  have no_address: "getCurrentWalletState online_env ?w = (?ws, ?w)"
    by (simp add: getCurrentWalletState_def parse_fields_def bindE_def JSON_parse_def
          online_env_def parse_known_def stored_session_def setItem_def fresh_world_def)
  have absent: "\<not> isConnected ?ws \<or> \<not> truthy (address ?ws)"
    by simp
  show ?thesis
    using C5_disconnected_fails_before_network[OF empty_page off]
      C5_disconnected_fails_before_network[OF no_address absent]
    by simp
qed



text \<open>
  C8. From every starting state and for every outcome of the backend's logout, resolved
  or rejected, disconnectWallet returns normally, and afterwards the provider handle is
  null and the wallet_state key is gone from storage.
\<close>

theorem C8_disconnectWallet_clears_state:
  "fst (disconnectWallet w) = Inr () \<and>
   currentProvider (snd (disconnectWallet w)) = None \<and>
   localStorage (snd (disconnectWallet w)) ''wallet_state'' = None"
  by (simp add: disconnectWallet_def logout_try_def action_defs removeItem_def emit_def
        split: option.splits sum.splits prod.splits)

text \<open>The logout that precedes the clearing is attempted where the backend has one.\<close>

lemma disconnectWallet_attempts_logout:
  assumes "currentProvider w = Some p" and "logout_outcome p = Some outcome"
  shows "trace (snd (disconnectWallet w)) = trace w @ [ProviderLogout]"
  using assms
  by (simp add: disconnectWallet_def logout_try_def action_defs removeItem_def emit_def
        split: sum.splits)

lemma getCurrentWalletState_parsed:
  assumes "localStorage w ''wallet_state'' = Some stored"
    and "JSON_parse env stored = Inr blob"
    and "blob \<noteq> JNull" and "blob \<noteq> JUndefined"
  shows "\<exists>providerId addr.
           get_prop blob ''providerId'' = Inr providerId \<and>
           get_prop blob ''address'' = Inr addr \<and>
           getCurrentWalletState env w =
             (\<lparr>isConnected = True, address = addr, balance = None,
               provider = find_provider env providerId, isLoading = False, error = None\<rparr>, w)"
proof -
  have nonempty: "stored \<noteq> []"
    using assms(2) by (auto simp: JSON_parse_def)
  obtain p a where p: "get_prop blob ''providerId'' = Inr p"
    and a: "get_prop blob ''address'' = Inr a"
    using assms(3,4) by (cases blob) auto
  then have "parse_fields env stored ''providerId'' ''address'' = Inr (p, a)"
    using assms(2) by (simp add: parse_fields_def bindE_def)
  then show ?thesis
    using assms(1) nonempty p a by (simp add: getCurrentWalletState_def)
qed

text \<open>
  C10, amended. Whenever the stored wallet_state blob parses to a JSON value other than
  null, getCurrentWalletState returns isConnected true with the address property of that
  value and leaves the world as it is, whether or not a signing provider is active. So
  with no active provider, a truthy stored address and an Address that can be built from
  it, createProof passes the connected check and fails with ``No wallet connected''.
\<close>

theorem C10_stored_session_reads_connected:
  assumes "localStorage w ''wallet_state'' = Some stored"
    and "JSON_parse env stored = Inr blob"
    and "blob \<noteq> JNull" and "blob \<noteq> JUndefined"
  shows "\<exists>addr. get_prop blob ''address'' = Inr addr \<and>
           isConnected (fst (getCurrentWalletState env w)) \<and>
           address (fst (getCurrentWalletState env w)) = addr \<and>
           snd (getCurrentWalletState env w) = w \<and>
           (currentProvider w = None \<and> truthy addr \<and> (\<exists>a. new_Address env addr = Inr a) \<longrightarrow>
              createProof env request w = (Inl (JsError ''No wallet connected''), w))"
proof -
  from getCurrentWalletState_parsed[OF assms]
  obtain providerId addr where addr: "get_prop blob ''address'' = Inr addr"
    and st: "getCurrentWalletState env w =
             (\<lparr>isConnected = True, address = addr, balance = None,
               provider = find_provider env providerId, isLoading = False, error = None\<rparr>, w)"
    by blast
  have "createProof env request w = (Inl (JsError ''No wallet connected''), w)"
    if "currentProvider w = None" "truthy addr" "new_Address env addr = Inr a" for a
    using that st by (simp add: createProof_def signAndSendTransaction_def action_defs)
  then show ?thesis using addr st by auto
qed

text \<open>
  C10 on a page reloaded with a recent session in storage and no provider in memory.
\<close>

theorem C10_stored_session_reads_connected_witness:
  "isConnected (fst (getCurrentWalletState online_env
     (stored_session (stringify (session_blob ''extension'' 1699999000000))))) \<and>
   address (fst (getCurrentWalletState online_env
     (stored_session (stringify (session_blob ''extension'' 1699999000000))))) = JStr alice \<and>
   createProof online_env
     \<lparr>request_proof_text = ''T'', request_proof_id = ''X'', request_metadata = None\<rparr>
     (stored_session (stringify (session_blob ''extension'' 1699999000000))) =
     (Inl (JsError ''No wallet connected''),
      stored_session (stringify (session_blob ''extension'' 1699999000000)))"
proof -
  let ?blob = "session_blob ''extension'' 1699999000000"
  let ?w = "stored_session (stringify ?blob)"
  have stored: "localStorage ?w ''wallet_state'' = Some (stringify ?blob)"
    by (simp add: stored_session_def setItem_def)
  have parse: "JSON_parse online_env (stringify ?blob) = Inr ?blob"
    by (simp add: JSON_parse_def online_env_def parse_known_def session_blob_def alice_def
          nat_digits.simps)
  have shape: "?blob \<noteq> JNull" "?blob \<noteq> JUndefined"
    by (simp_all add: session_blob_def)
  have addr: "get_prop ?blob ''address'' = Inr (JStr alice)"
    by (simp add: session_blob_def)
  have idle: "currentProvider ?w = None"
    by (simp add: stored_session_def setItem_def fresh_world_def)
  have usable: "truthy (JStr alice)" "new_Address online_env (JStr alice) = Inr (Address (JStr alice))"
    by (simp_all add: alice_def online_env_def)
  show ?thesis
    using C10_stored_session_reads_connected[OF stored parse shape,
        of "\<lparr>request_proof_text = ''T'', request_proof_id = ''X'', request_metadata = None\<rparr>"]
      addr idle usable
    by auto
qed

text \<open>
  Against C10 as stated: the text ``null'' is JSON and parses, but destructuring the
  parsed null throws, so the state read back is disconnected (and the blob is removed).
\<close>

theorem C10_null_blob_reads_disconnected:
  "localStorage (stored_session ''null'') ''wallet_state'' = Some ''null'' \<and>
   JSON_parse online_env ''null'' = Inr JNull \<and>
   getCurrentWalletState online_env (stored_session ''null'') = (disconnected, fresh_world)"
  by (simp add: getCurrentWalletState_def parse_fields_def bindE_def JSON_parse_def
        online_env_def parse_known_def stored_session_def setItem_def removeItem_def
        fresh_world_def)

section \<open>The read operations\<close>

text \<open>
  Each read operation returns its default unless every step of that call succeeded: the
  address was accepted, the query was answered, the answer carried return data, the
  parser decoded it, and the decoded value could be read.
\<close>

lemma getProof_default_unless:
  "getProof env user pid = Inr None \<or>
   (\<exists>a response decoded p.
      new_Address env (JStr user) = Inr a \<and>
      queryContract env
        \<lparr>query_func = ''getProof'', query_args = [AddressValue a, StringValue pid]\<rparr>
        = Inr response \<and>
      no_returnData response = Inr False \<and>
      parseQueryResponse env response [(''proof_data'', ''optional<ProofData>'')]
        = Inr decoded \<and>
      truthy (decoded_first decoded) \<and>
      read_proof env (decoded_first decoded) = Inr p \<and>
      getProof env user pid = Inr (Some p))"
  by (auto simp: getProof_def getProof_try_def bindE_def split: sum.splits if_splits)

lemma getUserProofs_default_unless:
  "getUserProofs env user = Inr [] \<or>
   (\<exists>a response decoded items ps.
      new_Address env (JStr user) = Inr a \<and>
      queryContract env \<lparr>query_func = ''getUserProofs'', query_args = [AddressValue a]\<rparr>
        = Inr response \<and>
      no_returnData response = Inr False \<and>
      parseQueryResponse env response [(''proofs'', ''list<ProofData>'')] = Inr decoded \<and>
      decoded_first decoded = JArr items \<and>
      mapE (read_proof env) items = Inr ps \<and>
      getUserProofs env user = Inr ps)"
  by (auto simp: getUserProofs_def getUserProofs_try_def bindE_def
        split: sum.splits if_splits jsval.splits)

lemma proofExists_default_unless:
  "proofExists env pid = Inr (JBool False) \<or>
   (\<exists>response decoded.
      queryContract env \<lparr>query_func = ''proofExists'', query_args = [StringValue pid]\<rparr>
        = Inr response \<and>
      no_returnData response = Inr False \<and>
      parseQueryResponse env response [(''exists'', ''bool'')] = Inr decoded \<and>
      proofExists env pid =
        Inr (if \<not> truthy decoded then decoded
             else JBool (decoded_first decoded = JBool True)))"
  by (auto simp: proofExists_def proofExists_try_def bindE_def split: sum.splits if_splits)

lemma getProofOwner_default_unless:
  "getProofOwner env pid = Inr None \<or>
   (\<exists>response decoded.
      queryContract env \<lparr>query_func = ''getProofOwner'', query_args = [StringValue pid]\<rparr>
        = Inr response \<and>
      no_returnData response = Inr False \<and>
      parseQueryResponse env response [(''owner'', ''optional<address>'')] = Inr decoded \<and>
      truthy (decoded_first decoded) \<and>
      getProofOwner env pid = Inr (Some (js_string (decoded_first decoded))))"
  by (auto simp: getProofOwner_def getProofOwner_try_def bindE_def method_toString_def
        split: sum.splits if_splits)

lemma getUserProofCount_default_unless:
  "getUserProofCount env user = Inr (Num 0) \<or>
   (\<exists>a response decoded.
      new_Address env (JStr user) = Inr a \<and>
      queryContract env
        \<lparr>query_func = ''getUserProofCount'', query_args = [AddressValue a]\<rparr>
        = Inr response \<and>
      no_returnData response = Inr False \<and>
      parseQueryResponse env response [(''count'', ''u64'')] = Inr decoded \<and>
      truthy (decoded_first decoded) \<and>
      getUserProofCount env user = Inr (parseInt env (js_string (decoded_first decoded))))"
  by (auto simp: getUserProofCount_def count_try_def bindE_def method_toString_def
        split: sum.splits if_splits)

lemma getTotalProofs_default_unless:
  "getTotalProofs env = Inr (Num 0) \<or>
   (\<exists>response decoded.
      queryContract env \<lparr>query_func = ''getTotalProofs'', query_args = []\<rparr> = Inr response \<and>
      no_returnData response = Inr False \<and>
      parseQueryResponse env response [(''total'', ''u64'')] = Inr decoded \<and>
      truthy (decoded_first decoded) \<and>
      getTotalProofs env = Inr (parseInt env (js_string (decoded_first decoded))))"
  by (auto simp: getTotalProofs_def count_try_def bindE_def method_toString_def
        split: sum.splits if_splits)

text \<open>
  Reading a decoded proof throws a TypeError when one of its four fields is missing or
  null, since \<^verbatim>\<open>toString\<close> is called on it.
\<close>

lemma read_proof_missing_field:
  assumes "get_prop v ''proof_text'' = Inr x1" and "get_prop v ''timestamp'' = Inr x2"
    and "get_prop v ''proof_id'' = Inr x3" and "get_prop v ''metadata'' = Inr x4"
    and "{x1, x2, x3, x4} \<inter> {JUndefined, JNull} \<noteq> {}"
  shows "\<exists>e. read_proof env v = Inl e"
  using assms
  by (simp add: read_proof_def bindE_def method_toString_def split: if_splits) blast

text \<open>The failures of one \<^verbatim>\<open>getProof\<close> call, one by one.\<close>

lemma getProof_rejected_address:
  assumes "new_Address env (JStr user) = Inl e"
  shows "getProof env user pid = Inr None"
  using assms getProof_default_unless[of env user pid] by auto

lemma getProof_query_throws:
  assumes "new_Address env (JStr user) = Inr a"
    and "queryContract env
           \<lparr>query_func = ''getProof'', query_args = [AddressValue a, StringValue pid]\<rparr> = Inl e"
  shows "getProof env user pid = Inr None"
  using assms getProof_default_unless[of env user pid] by auto

lemma getProof_no_returnData:
  assumes "new_Address env (JStr user) = Inr a"
    and "queryContract env
           \<lparr>query_func = ''getProof'', query_args = [AddressValue a, StringValue pid]\<rparr>
           = Inr response"
    and "no_returnData response \<noteq> Inr False"
  shows "getProof env user pid = Inr None"
  using assms getProof_default_unless[of env user pid] by auto

lemma getProof_decode_error:
  assumes "new_Address env (JStr user) = Inr a"
    and "queryContract env
           \<lparr>query_func = ''getProof'', query_args = [AddressValue a, StringValue pid]\<rparr>
           = Inr response"
    and "parseQueryResponse env response [(''proof_data'', ''optional<ProofData>'')] = Inl e"
  shows "getProof env user pid = Inr None"
  using assms getProof_default_unless[of env user pid] by auto

lemma getProof_unreadable_proof:
  assumes "new_Address env (JStr user) = Inr a"
    and "queryContract env
           \<lparr>query_func = ''getProof'', query_args = [AddressValue a, StringValue pid]\<rparr>
           = Inr response"
    and "parseQueryResponse env response [(''proof_data'', ''optional<ProofData>'')]
           = Inr decoded"
    and "read_proof env (decoded_first decoded) = Inl e"
  shows "getProof env user pid = Inr None"
  using assms getProof_default_unless[of env user pid] by auto

lemma getProof_standalone_rethrows:
  assumes "new_Address env (JStr user) = Inr a"
    and "queryContract env
           \<lparr>query_func = ''getProof'', query_args = [AddressValue a, BytesValue pid]\<rparr> = Inl e"
  shows "getProof_standalone env user pid = Inl e"
  using assms by (simp add: getProof_standalone_def bindE_def)

text \<open>
  C2, amended. The read operations of the ContractService that works with the wallet
  service (getProof, getUserProofs, proofExists, getProofOwner, getUserProofCount,
  getTotalProofs) never raise, for every input and every behaviour of the network provider
  and of the result parser. Each returns its default (null, the empty list, false, null,
  0 and 0) on any failure of the call at hand: the result differs from the default only if
  the address was accepted, the query was answered, the answer carried return data, the
  parser decoded it and the decoded value could be read. The standalone ContractService of
  frontend-modern is different by design: its getProof logs the error of the provider and
  throws it again.
\<close>

theorem C2_read_operations_swallow_errors:
  "(\<exists>r. getProof env user pid = Inr r) \<and>
   (\<exists>r. getUserProofs env user = Inr r) \<and>
   (\<exists>r. proofExists env pid = Inr r) \<and>
   (\<exists>r. getProofOwner env pid = Inr r) \<and>
   (\<exists>r. getUserProofCount env user = Inr r) \<and>
   (\<exists>r. getTotalProofs env = Inr r) \<and>
   (getProof env user pid = Inr None \<or>
    (\<exists>a response decoded p.
       new_Address env (JStr user) = Inr a \<and>
       queryContract env
         \<lparr>query_func = ''getProof'', query_args = [AddressValue a, StringValue pid]\<rparr>
         = Inr response \<and>
       no_returnData response = Inr False \<and>
       parseQueryResponse env response [(''proof_data'', ''optional<ProofData>'')]
         = Inr decoded \<and>
       truthy (decoded_first decoded) \<and>
       read_proof env (decoded_first decoded) = Inr p \<and>
       getProof env user pid = Inr (Some p))) \<and>
   (getUserProofs env user = Inr [] \<or>
    (\<exists>a response decoded items ps.
       new_Address env (JStr user) = Inr a \<and>
       queryContract env \<lparr>query_func = ''getUserProofs'', query_args = [AddressValue a]\<rparr>
         = Inr response \<and>
       no_returnData response = Inr False \<and>
       parseQueryResponse env response [(''proofs'', ''list<ProofData>'')] = Inr decoded \<and>
       decoded_first decoded = JArr items \<and>
       mapE (read_proof env) items = Inr ps \<and>
       getUserProofs env user = Inr ps)) \<and>
   (proofExists env pid = Inr (JBool False) \<or>
    (\<exists>response decoded.
       queryContract env \<lparr>query_func = ''proofExists'', query_args = [StringValue pid]\<rparr>
         = Inr response \<and>
       no_returnData response = Inr False \<and>
       parseQueryResponse env response [(''exists'', ''bool'')] = Inr decoded \<and>
       proofExists env pid =
         Inr (if \<not> truthy decoded then decoded
              else JBool (decoded_first decoded = JBool True)))) \<and>
   (getProofOwner env pid = Inr None \<or>
    (\<exists>response decoded.
       queryContract env \<lparr>query_func = ''getProofOwner'', query_args = [StringValue pid]\<rparr>
         = Inr response \<and>
       no_returnData response = Inr False \<and>
       parseQueryResponse env response [(''owner'', ''optional<address>'')] = Inr decoded \<and>
       truthy (decoded_first decoded) \<and>
       getProofOwner env pid = Inr (Some (js_string (decoded_first decoded))))) \<and>
   (getUserProofCount env user = Inr (Num 0) \<or>
    (\<exists>a response decoded.
       new_Address env (JStr user) = Inr a \<and>
       queryContract env
         \<lparr>query_func = ''getUserProofCount'', query_args = [AddressValue a]\<rparr>
         = Inr response \<and>
       no_returnData response = Inr False \<and>
       parseQueryResponse env response [(''count'', ''u64'')] = Inr decoded \<and>
       truthy (decoded_first decoded) \<and>
       getUserProofCount env user
         = Inr (parseInt env (js_string (decoded_first decoded))))) \<and>
   (getTotalProofs env = Inr (Num 0) \<or>
    (\<exists>response decoded.
       queryContract env \<lparr>query_func = ''getTotalProofs'', query_args = []\<rparr>
         = Inr response \<and>
       no_returnData response = Inr False \<and>
       parseQueryResponse env response [(''total'', ''u64'')] = Inr decoded \<and>
       truthy (decoded_first decoded) \<and>
       getTotalProofs env = Inr (parseInt env (js_string (decoded_first decoded))))) \<and>
   (\<forall>a e. new_Address env (JStr user) = Inr a \<and>
          queryContract env
            \<lparr>query_func = ''getProof'', query_args = [AddressValue a, BytesValue pid]\<rparr>
            = Inl e
          \<longrightarrow> getProof_standalone env user pid = Inl e)"
proof -
  have returns:
    "(\<exists>r. getProof env user pid = Inr r) \<and>
     (\<exists>r. getUserProofs env user = Inr r) \<and>
     (\<exists>r. proofExists env pid = Inr r) \<and>
     (\<exists>r. getProofOwner env pid = Inr r) \<and>
     (\<exists>r. getUserProofCount env user = Inr r) \<and>
     (\<exists>r. getTotalProofs env = Inr r)"
    by (simp add: getProof_def getUserProofs_def proofExists_def getProofOwner_def
          getUserProofCount_def getTotalProofs_def split: sum.splits)
  show ?thesis
    using returns
      getProof_default_unless[of env user pid] getUserProofs_default_unless[of env user]
      proofExists_default_unless[of env pid] getProofOwner_default_unless[of env pid]
      getUserProofCount_default_unless[of env user] getTotalProofs_default_unless[of env]
      getProof_standalone_rethrows[of env user _ pid]
    by (intro conjI allI impI) (assumption | blast)+
qed

text \<open>
  C2 on single calls: a provider that throws on every call, an address the SDK rejects,
  an answer without return data, a network on which only this query fails, a parser that
  rejects the data, a decoded proof without its metadata field, and a call on which every
  step succeeds.
\<close>

theorem C2_read_operations_swallow_errors_witness:
  "getProof offline_env alice ''X'' = Inr None \<and>
   getUserProofs offline_env alice = Inr [] \<and>
   proofExists offline_env ''X'' = Inr (JBool False) \<and>
   getProofOwner offline_env ''X'' = Inr None \<and>
   getUserProofCount offline_env alice = Inr (Num 0) \<and>
   getTotalProofs offline_env = Inr (Num 0) \<and>
   getProof online_env ''not-an-address'' ''X'' = Inr None \<and>
   getProof online_env alice ''X'' = Inr None \<and>
   getProof picky_env alice ''X'' = Inr None \<and>
   getProof garbled_env alice ''X'' = Inr None \<and>
   getProof partial_env alice ''X'' = Inr None \<and>
   getProof serving_env alice ''X'' =
     Inr (Some \<lparr>proof_text = ''T'', timestamp = Num 7, proof_id = ''X'', metadata = ''{}''\<rparr>) \<and>
   getProof_standalone offline_env alice ''X'' = Inl (JsError ''Network Error'')"
proof -
  have offline:
    "getProof offline_env alice ''X'' = Inr None \<and>
     getUserProofs offline_env alice = Inr [] \<and>
     proofExists offline_env ''X'' = Inr (JBool False) \<and>
     getProofOwner offline_env ''X'' = Inr None \<and>
     getUserProofCount offline_env alice = Inr (Num 0) \<and>
     getTotalProofs offline_env = Inr (Num 0) \<and>
     getProof_standalone offline_env alice ''X'' = Inl (JsError ''Network Error'')"
    using C2_read_operations_swallow_errors[of offline_env alice "''X''"]
    by (simp add: offline_env_def online_env_def)
  have rejected: "getProof online_env ''not-an-address'' ''X'' = Inr None"
    using C2_read_operations_swallow_errors[of online_env "''not-an-address''" "''X''"]
    by (simp add: online_env_def alice_def)
  have empty: "getProof online_env alice ''X'' = Inr None"
    using C2_read_operations_swallow_errors[of online_env alice "''X''"]
    by (simp add: online_env_def no_returnData_def bindE_def)
  have picky: "getProof picky_env alice ''X'' = Inr None"
    using C2_read_operations_swallow_errors[of picky_env alice "''X''"]
    by (simp add: picky_env_def online_env_def)
  have garbled: "getProof garbled_env alice ''X'' = Inr None"
    using C2_read_operations_swallow_errors[of garbled_env alice "''X''"]
    by (simp add: garbled_env_def online_env_def)
  have partial: "getProof partial_env alice ''X'' = Inr None"
    using C2_read_operations_swallow_errors[of partial_env alice "''X''"]
    by (simp add: partial_env_def garbled_env_def online_env_def decoded_first_def
          read_proof_def bindE_def method_toString_def)
  have served: "getProof serving_env alice ''X'' =
      Inr (Some \<lparr>proof_text = ''T'', timestamp = Num 7, proof_id = ''X'', metadata = ''{}''\<rparr>)"
    by (simp add: getProof_def getProof_try_def bindE_def serving_env_def garbled_env_def
          online_env_def no_returnData_def decoded_first_def decoded_proof_def read_proof_def
          method_toString_def nat_digits.simps)
  from offline rejected empty picky garbled partial served show ?thesis by simp
qed

text \<open>
  Against C2 as stated: with a network provider that throws, getProof of the standalone
  ContractService raises instead of returning null.
\<close>

theorem C2_standalone_getProof_rethrows:
  "getProof_standalone offline_env alice ''X'' = Inl (JsError ''Network Error'')"
  by (simp add: getProof_standalone_def bindE_def offline_env_def online_env_def)

section \<open>The argument lists\<close>

text \<open>
  C9, amended. In createProof the argument list is the text and the id, in that order,
  and in updateProof the id and the new text; the metadata follows as a third argument
  exactly when it is provided and not empty, so the list has two entries when the metadata
  is absent. The standalone ContractService is different by design: certifyAction and its
  updateProof always build three arguments, the third an OptionalValue that is empty when
  the metadata is absent or empty.
\<close>

theorem C9_argument_lists:
  "(request_metadata request = None \<or> request_metadata request = Some [] \<longrightarrow>
      createProof_args request =
        [StringValue (request_proof_text request), StringValue (request_proof_id request)]) \<and>
   (request_metadata request = Some m \<and> m \<noteq> [] \<longrightarrow>
      createProof_args request =
        [StringValue (request_proof_text request), StringValue (request_proof_id request),
         StringValue m]) \<and>
   (new_metadata update = None \<or> new_metadata update = Some [] \<longrightarrow>
      updateProof_args update =
        [StringValue (update_proof_id update), StringValue (new_proof_text update)]) \<and>
   (new_metadata update = Some m' \<and> m' \<noteq> [] \<longrightarrow>
      updateProof_args update =
        [StringValue (update_proof_id update), StringValue (new_proof_text update),
         StringValue m']) \<and>
   certifyAction_args params =
     [BytesValue (certify_proofText params), BytesValue (certify_proofId params),
      OptionalValue (if provided (certify_metadata params)
                     then map_option BytesValue (certify_metadata params) else None)] \<and>
   updateProof_standalone_args params' =
     [BytesValue (update_proofId params'), BytesValue (newProofText params'),
      OptionalValue (if provided (newMetadata params')
                     then map_option BytesValue (newMetadata params') else None)]"
  by (auto simp: createProof_args_def updateProof_args_def metadata_arg_def
        certifyAction_args_def updateProof_standalone_args_def optional_metadata_arg_def
        split: option.splits)

text \<open>C9 on a request with metadata, an update without, and the standalone calls.\<close>

theorem C9_argument_lists_witness:
  "createProof_args
     \<lparr>request_proof_text = ''T'', request_proof_id = ''X'', request_metadata = Some ''{}''\<rparr>
     = [StringValue ''T'', StringValue ''X'', StringValue ''{}''] \<and>
   createProof_args
     \<lparr>request_proof_text = ''T'', request_proof_id = ''X'', request_metadata = None\<rparr>
     = [StringValue ''T'', StringValue ''X''] \<and>
   updateProof_args
     \<lparr>update_proof_id = ''X'', new_proof_text = ''T2'', new_metadata = None\<rparr>
     = [StringValue ''X'', StringValue ''T2''] \<and>
   updateProof_args
     \<lparr>update_proof_id = ''X'', new_proof_text = ''T2'', new_metadata = Some ''{}''\<rparr>
     = [StringValue ''X'', StringValue ''T2'', StringValue ''{}''] \<and>
   certifyAction_args
     \<lparr>certify_proofText = ''T'', certify_proofId = ''X'', certify_metadata = None\<rparr>
     = [BytesValue ''T'', BytesValue ''X'', OptionalValue None]"
  using C9_argument_lists[of
      "\<lparr>request_proof_text = ''T'', request_proof_id = ''X'', request_metadata = Some ''{}''\<rparr>"
      "''{}''"
      "\<lparr>update_proof_id = ''X'', new_proof_text = ''T2'', new_metadata = None\<rparr>"
      "''{}''"
      "\<lparr>certify_proofText = ''T'', certify_proofId = ''X'', certify_metadata = None\<rparr>"
      "\<lparr>update_proofId = ''X'', newProofText = ''T2'', newMetadata = None\<rparr>"]
    C9_argument_lists[of
      "\<lparr>request_proof_text = ''T'', request_proof_id = ''X'', request_metadata = None\<rparr>"
      "''{}''"
      "\<lparr>update_proof_id = ''X'', new_proof_text = ''T2'', new_metadata = Some ''{}''\<rparr>"
      "''{}''"
      "\<lparr>certify_proofText = ''T'', certify_proofId = ''X'', certify_metadata = None\<rparr>"
      "\<lparr>update_proofId = ''X'', newProofText = ''T2'', newMetadata = None\<rparr>"]
  by simp

text \<open>
  Against C9 as stated: certifyAction without metadata builds three arguments, not two.
\<close>

theorem C9_certifyAction_three_arguments:
  "length (certifyAction_args
     \<lparr>certify_proofText = ''T'', certify_proofId = ''X'', certify_metadata = None\<rparr>) = 3"
  by (simp add: certifyAction_args_def optional_metadata_arg_def)

end
